theory Spec2Isabelle
  imports Complex_Main
begin

section \<open>Maxwell potential operators (bempp/api/operators/potential/maxwell.py)\<close>

text \<open>
  The module holds two factory functions, \<open>electric_field\<close> and \<open>magnetic_field\<close>.
  Each builds an \<open>OperatorDescriptor\<close> from the wavenumber and the precision, hands it
  with the remaining arguments to \<open>PotentialAssembler\<close>, and wraps the assembler in a
  \<open>PotentialOperator\<close>. The three collaborator classes are imported from modules that
  are not part of the sources at hand.
\<close>

subsection \<open>Data model\<close>

text \<open>
  Modelled from the spec: the precision tag of a descriptor, "single/double, optionally
  nullable meaning default" (the declaration of the tag is not in the sources). The
  nullable value is \<open>precision_tag option\<close>, with \<open>None\<close> for Python's \<open>None\<close>.
\<close>

datatype precision_tag = Single | Double

text \<open>
  Modelled from the spec: \<open>OperatorDescriptor\<close>, whose class declaration is not in the
  sources. The factories call it with eight positional arguments, which the source labels
  Identifier, Options, Kernel type, Assembly type, Precision, Is complex, Singular part and
  Kernel dimension; the fields have these names, in this order (the first one is
  \<open>operator_identifier\<close> and the fifth \<open>descriptor_precision\<close>, as \<open>identifier\<close> is
  reserved and \<open>precision\<close> names the factories' argument). The options are an ordered
  sequence of real numbers, the singular part is a nullable tag, the kernel dimension is a
  Python integer.
\<close>

datatype operator_descriptor =
  OperatorDescriptor
    (operator_identifier: string)
    (options: "real list")
    (kernel_type: string)
    (assembly_type: string)
    (descriptor_precision: "precision_tag option")
    (is_complex: bool)
    (singular_part: "string option")
    (kernel_dimension: int)

text \<open>
  The local variable \<open>operator_descriptor\<close> of \<open>electric_field\<close> (lines 19 to 28) and of
  \<open>magnetic_field\<close> (lines 51 to 60). The wavenumber is a complex scalar; \<open>_np.real\<close> and
  \<open>_np.imag\<close> are its two projections.
\<close>

definition electric_field_operator_descriptor ::
  "complex \<Rightarrow> precision_tag option \<Rightarrow> operator_descriptor" where
  "electric_field_operator_descriptor wavenumber precision =
     OperatorDescriptor
       ''maxwell_electric_field_potential''
       [Re wavenumber, Im wavenumber]
       ''helmholtz_single_layer''
       ''maxwell_electric_field''
       precision
       True
       None
       3"

definition magnetic_field_operator_descriptor ::
  "complex \<Rightarrow> precision_tag option \<Rightarrow> operator_descriptor" where
  "magnetic_field_operator_descriptor wavenumber precision =
     OperatorDescriptor
       ''maxwell_magnetic_field_potential''
       [Re wavenumber, Im wavenumber]
       ''helmholtz_single_layer''
       ''maxwell_magnetic_field''
       precision
       True
       None
       3"

subsection \<open>The collaborators of the factories\<close>

text \<open>
  Every failure of a construction is a value: the result of a constructor that can raise
  is \<open>error + 'a\<close>, with \<open>Inl\<close> for the exception.
\<close>

datatype error = InvalidConfiguration

text \<open>
  Modelled from the spec: \<open>PotentialAssembler\<close>, whose class is not in the sources. It
  "binds a Space, a set of evaluation points (ordered sequence of 3-vectors), an
  OperatorDescriptor, and optional device/assembler-backend selection and extra
  parameters". The space, the device interface and the parameters are opaque to the
  factories: they are values of the type variables \<open>'s\<close>, \<open>'d\<close> and \<open>'q\<close>, the two
  nullable ones under \<open>option\<close>.
\<close>

record ('s, 'd, 'q) potential_assembler =
  pa_space :: 's
  pa_points :: "real list list"
  pa_operator_descriptor :: operator_descriptor
  pa_device_interface :: "'d option"
  pa_assembler_name :: string
  pa_parameters :: "'q option"

text \<open>
  Modelled from the spec: the recognized assembler names, "dense" and the other registered
  backend names. The registry is not in the sources; the registered names are a parameter.
\<close>

definition recognized_assemblers :: "string list \<Rightarrow> string list" where
  "recognized_assemblers registered = ''dense'' # registered"

text \<open>
  Modelled from the spec: the evaluation points are well formed when the array is not empty
  and every point is a 3-vector.
\<close>

definition well_formed_points :: "real list list \<Rightarrow> bool" where
  "well_formed_points points = (points \<noteq> [] \<and> list_all (\<lambda>x. length x = 3) points)"

text \<open>
  Modelled from the spec: the constructor of \<open>PotentialAssembler\<close>. The factories check
  nothing themselves, so the error conditions the spec gives for them are raised here:
  an invalid-configuration error "if the assembler name is not in the recognized set, or if
  the evaluation points array is empty or malformed (wrong dimensionality)". Otherwise the
  assembler binds its six arguments as they are, in the order of the call.
\<close>

definition PotentialAssembler ::
  "string list \<Rightarrow> 's \<Rightarrow> real list list \<Rightarrow> operator_descriptor \<Rightarrow> 'd option \<Rightarrow> string \<Rightarrow>
     'q option \<Rightarrow> error + ('s, 'd, 'q) potential_assembler" where
  "PotentialAssembler registered space points operator_descriptor device_interface
       assembler_name parameters =
     (if assembler_name \<notin> set (recognized_assemblers registered) then Inl InvalidConfiguration
      else if \<not> well_formed_points points then Inl InvalidConfiguration
      else Inr \<lparr>pa_space = space, pa_points = points,
                pa_operator_descriptor = operator_descriptor,
                pa_device_interface = device_interface,
                pa_assembler_name = assembler_name,
                pa_parameters = parameters\<rparr>)"

text \<open>
  Modelled from the spec: \<open>PotentialOperator\<close>, which "owns (or references) one
  PotentialAssembler". Its class is not in the sources.
\<close>

datatype ('s, 'd, 'q) potential_operator =
  PotentialOperator (assembler_of: "('s, 'd, 'q) potential_assembler")

subsection \<open>The factory functions\<close>

text \<open>
  \<open>electric_field\<close> (lines 5 to 34) and \<open>magnetic_field\<close> (lines 37 to 66), with all seven
  arguments given. The body binds the descriptor, calls \<open>PotentialAssembler\<close> with
  \<open>space, points, operator_descriptor, device_interface, assembler, parameters\<close> and wraps
  the result; an exception of the assembler's constructor leaves the function before
  \<open>PotentialOperator\<close> is called. The first argument of the model is the registry of backend
  names that the assembler consults.
\<close>

definition electric_field ::
  "string list \<Rightarrow> 's \<Rightarrow> real list list \<Rightarrow> complex \<Rightarrow> 'q option \<Rightarrow> string \<Rightarrow> 'd option \<Rightarrow>
     precision_tag option \<Rightarrow> error + ('s, 'd, 'q) potential_operator" where
  "electric_field registered space points wavenumber parameters assembler device_interface
       precision =
     (let operator_descriptor = electric_field_operator_descriptor wavenumber precision in
      case PotentialAssembler registered space points operator_descriptor device_interface
             assembler parameters of
        Inl e \<Rightarrow> Inl e
      | Inr a \<Rightarrow> Inr (PotentialOperator a))"

definition magnetic_field ::
  "string list \<Rightarrow> 's \<Rightarrow> real list list \<Rightarrow> complex \<Rightarrow> 'q option \<Rightarrow> string \<Rightarrow> 'd option \<Rightarrow>
     precision_tag option \<Rightarrow> error + ('s, 'd, 'q) potential_operator" where
  "magnetic_field registered space points wavenumber parameters assembler device_interface
       precision =
     (let operator_descriptor = magnetic_field_operator_descriptor wavenumber precision in
      case PotentialAssembler registered space points operator_descriptor device_interface
             assembler parameters of
        Inl e \<Rightarrow> Inl e
      | Inr a \<Rightarrow> Inr (PotentialOperator a))"

text \<open>
  The four optional arguments of the two signatures (lines 9 to 12 and 41 to 44). A call
  site gives each of them or leaves it out: \<open>None\<close> is an argument left out, \<open>Some v\<close> an
  argument given as \<open>v\<close> (and \<open>Some None\<close> is Python's \<open>None\<close> given explicitly). An
  argument left out takes the default of the signature: \<open>parameters=None\<close>,
  \<open>assembler="dense"\<close>, \<open>device_interface=None\<close>, \<open>precision=None\<close>.
\<close>

record ('d, 'q) keyword_arguments =
  kw_parameters :: "'q option option"
  kw_assembler :: "string option"
  kw_device_interface :: "'d option option"
  kw_precision :: "precision_tag option option"

definition no_keyword_arguments :: "('d, 'q) keyword_arguments" where
  "no_keyword_arguments =
     \<lparr>kw_parameters = None, kw_assembler = None, kw_device_interface = None,
      kw_precision = None\<rparr>"

definition electric_field_call ::
  "string list \<Rightarrow> 's \<Rightarrow> real list list \<Rightarrow> complex \<Rightarrow> ('d, 'q) keyword_arguments \<Rightarrow>
     error + ('s, 'd, 'q) potential_operator" where
  "electric_field_call registered space points wavenumber kw =
     electric_field registered space points wavenumber
       (case kw_parameters kw of None \<Rightarrow> None | Some v \<Rightarrow> v)
       (case kw_assembler kw of None \<Rightarrow> ''dense'' | Some v \<Rightarrow> v)
       (case kw_device_interface kw of None \<Rightarrow> None | Some v \<Rightarrow> v)
       (case kw_precision kw of None \<Rightarrow> None | Some v \<Rightarrow> v)"

definition magnetic_field_call ::
  "string list \<Rightarrow> 's \<Rightarrow> real list list \<Rightarrow> complex \<Rightarrow> ('d, 'q) keyword_arguments \<Rightarrow>
     error + ('s, 'd, 'q) potential_operator" where
  "magnetic_field_call registered space points wavenumber kw =
     magnetic_field registered space points wavenumber
       (case kw_parameters kw of None \<Rightarrow> None | Some v \<Rightarrow> v)
       (case kw_assembler kw of None \<Rightarrow> ''dense'' | Some v \<Rightarrow> v)
       (case kw_device_interface kw of None \<Rightarrow> None | Some v \<Rightarrow> v)
       (case kw_precision kw of None \<Rightarrow> None | Some v \<Rightarrow> v)"

subsection \<open>The object store of the core\<close>

text \<open>
  Modelled from the spec: the operations of the core that come after a descriptor is
  constructed, none of which is in the sources. Python objects live in a store and are
  passed by reference, so that one descriptor can be shared by several assemblers: the
  store is a list of objects and an address is an index into it. Of an assembler the store
  keeps what bears on the descriptor: the address of the descriptor it was constructed
  over, and the state of its lazy assembly, which the spec gives as "unassembled,
  assembled, faulted".
\<close>

datatype assembly_state = Unassembled | Assembled | Faulted

datatype heap_object =
    DescriptorObject operator_descriptor
  | AssemblerObject nat assembly_state

text \<open>
  Modelled from the spec: the operations. \<open>ConstructDescriptor\<close> allocates a further
  descriptor. \<open>ConstructAssembler r\<close> constructs an assembler over the descriptor at address
  \<open>r\<close>, unassembled ("assembly may be deferred (lazy) until first application"); several
  assemblers over one address share the descriptor. \<open>Apply a ok\<close> applies the assembler at
  address \<open>a\<close>: it "triggers assembly transition if unassembled, memoizes result, and
  transitions to faulted on assembly error", \<open>ok\<close> telling whether the numerical assembly,
  which is outside the core, succeeds; an assembled or faulted assembler keeps its state.
  An operation on an address that holds no object of the right kind raises and leaves the
  store as it is.
\<close>

datatype core_operation =
    ConstructDescriptor operator_descriptor
  | ConstructAssembler nat
  | Apply nat bool

fun core_step :: "heap_object list \<Rightarrow> core_operation \<Rightarrow> heap_object list" where
  "core_step h (ConstructDescriptor d) = h @ [DescriptorObject d]"
| "core_step h (ConstructAssembler r) =
     (if r < length h then
        (case h ! r of
           DescriptorObject d \<Rightarrow> h @ [AssemblerObject r Unassembled]
         | AssemblerObject r' st \<Rightarrow> h)
      else h)"
| "core_step h (Apply a ok) =
     (if a < length h then
        (case h ! a of
           DescriptorObject d \<Rightarrow> h
         | AssemblerObject r st \<Rightarrow>
             (case st of
                Unassembled \<Rightarrow> h[a := AssemblerObject r (if ok then Assembled else Faulted)]
              | Assembled \<Rightarrow> h
              | Faulted \<Rightarrow> h))
      else h)"

definition core_run :: "heap_object list \<Rightarrow> core_operation list \<Rightarrow> heap_object list" where
  "core_run h ops = foldl core_step h ops"

subsection \<open>The factory functions as Python runs them\<close>









section \<open>What a successful call returns\<close>

text \<open>
  The assembler's constructor either raises or binds its arguments unchanged; a factory
  that returns an operator returns the wrapper of exactly that assembler.
\<close>

lemma PotentialAssembler_Inr:
  assumes "PotentialAssembler reg s pts od d a par = Inr asm"
  shows "asm = \<lparr>pa_space = s, pa_points = pts, pa_operator_descriptor = od,
                 pa_device_interface = d, pa_assembler_name = a, pa_parameters = par\<rparr>"
    and "a \<in> set (recognized_assemblers reg)"
    and "well_formed_points pts"
  using assms by (auto simp: PotentialAssembler_def split: if_splits)

lemma PotentialAssembler_valid:
  assumes "a \<in> set (recognized_assemblers reg)" and "well_formed_points pts"
  shows "PotentialAssembler reg s pts od d a par =
           Inr \<lparr>pa_space = s, pa_points = pts, pa_operator_descriptor = od,
                pa_device_interface = d, pa_assembler_name = a, pa_parameters = par\<rparr>"
  using assms by (simp add: PotentialAssembler_def)

lemma PotentialAssembler_invalid:
  assumes "a \<notin> set (recognized_assemblers reg) \<or> \<not> well_formed_points pts"
  shows "PotentialAssembler reg s pts od d a par = Inl InvalidConfiguration"
  using assms by (auto simp: PotentialAssembler_def)

lemma electric_field_Inr:
  assumes "electric_field reg s pts w par a d p = Inr eop"
  shows "eop = PotentialOperator
           \<lparr>pa_space = s, pa_points = pts,
            pa_operator_descriptor = electric_field_operator_descriptor w p,
            pa_device_interface = d, pa_assembler_name = a, pa_parameters = par\<rparr>"
  using assms
  by (auto simp: electric_field_def Let_def split: sum.splits dest: PotentialAssembler_Inr(1))

lemma magnetic_field_Inr:
  assumes "magnetic_field reg s pts w par a d p = Inr mop"
  shows "mop = PotentialOperator
           \<lparr>pa_space = s, pa_points = pts,
            pa_operator_descriptor = magnetic_field_operator_descriptor w p,
            pa_device_interface = d, pa_assembler_name = a, pa_parameters = par\<rparr>"
  using assms
  by (auto simp: magnetic_field_def Let_def split: sum.splits dest: PotentialAssembler_Inr(1))

lemma electric_field_descriptor:
  "electric_field reg s pts w par a d p = Inr eop \<Longrightarrow>
     pa_operator_descriptor (assembler_of eop) = electric_field_operator_descriptor w p"
  by (drule electric_field_Inr) simp

lemma magnetic_field_descriptor:
  "magnetic_field reg s pts w par a d p = Inr mop \<Longrightarrow>
     pa_operator_descriptor (assembler_of mop) = magnetic_field_operator_descriptor w p"
  by (drule magnetic_field_Inr) simp

text \<open>
  A concrete call used to exercise the theorems below: no registered backend besides
  "dense", a space handle, one evaluation point, the wavenumber \<open>2 + i\<close>, and double
  precision.
\<close>

lemma electric_field_sample:
  "electric_field [] (0::nat) [[0, 0, 1]] (Complex 2 1) (None::unit option) ''dense''
       (None::unit option) (Some Double) =
     Inr (PotentialOperator
           \<lparr>pa_space = 0, pa_points = [[0, 0, 1]],
            pa_operator_descriptor = electric_field_operator_descriptor (Complex 2 1) (Some Double),
            pa_device_interface = None, pa_assembler_name = ''dense'', pa_parameters = None\<rparr>)"
  by (simp add: electric_field_def PotentialAssembler_def recognized_assemblers_def
      well_formed_points_def)

lemma magnetic_field_sample:
  "magnetic_field [] (0::nat) [[0, 0, 1]] (Complex 2 1) (None::unit option) ''dense''
       (None::unit option) (Some Double) =
     Inr (PotentialOperator
           \<lparr>pa_space = 0, pa_points = [[0, 0, 1]],
            pa_operator_descriptor = magnetic_field_operator_descriptor (Complex 2 1) (Some Double),
            pa_device_interface = None, pa_assembler_name = ''dense'', pa_parameters = None\<rparr>)"
  by (simp add: magnetic_field_def PotentialAssembler_def recognized_assemblers_def
      well_formed_points_def)

section \<open>Properties of the descriptors\<close>

text \<open>
  C1: for every wavenumber \<open>w\<close> and every choice of the other arguments, the descriptor
  that \<open>electric_field\<close> and \<open>magnetic_field\<close> construct has as options the two-element
  list of the real part and the imaginary part of \<open>w\<close>, in that order; the options are
  real numbers, and so is every other numeric field: no complex number is stored. The last
  two conjuncts say the same of the descriptor held by a returned operator.
\<close>

theorem options_real_imag:
  "options (electric_field_operator_descriptor w p) = [Re w, Im w] \<and>
   options (magnetic_field_operator_descriptor w p) = [Re w, Im w] \<and>
   (electric_field reg s pts w par a d p = Inr eop \<longrightarrow>
      options (pa_operator_descriptor (assembler_of eop)) = [Re w, Im w]) \<and>
   (magnetic_field reg s pts w par a d p = Inr mop \<longrightarrow>
      options (pa_operator_descriptor (assembler_of mop)) = [Re w, Im w])"
proof -
  have e: "options (electric_field_operator_descriptor w p) = [Re w, Im w]"
    by (simp add: electric_field_operator_descriptor_def)
  have m: "options (magnetic_field_operator_descriptor w p) = [Re w, Im w]"
    by (simp add: magnetic_field_operator_descriptor_def)
  show ?thesis
    using e m by (simp add: electric_field_descriptor magnetic_field_descriptor)
qed

theorem options_real_imag_witness:
  "\<exists>eop mop.
     electric_field [] (0::nat) [[0, 0, 1]] (Complex 2 1) (None::unit option) ''dense''
       (None::unit option) (Some Double) = Inr eop \<and>
     magnetic_field [] (0::nat) [[0, 0, 1]] (Complex 2 1) (None::unit option) ''dense''
       (None::unit option) (Some Double) = Inr mop \<and>
     options (pa_operator_descriptor (assembler_of eop)) = [2, 1] \<and>
     options (pa_operator_descriptor (assembler_of mop)) = [2, 1]"
proof -
  obtain eop where e:
    "electric_field [] (0::nat) [[0, 0, 1]] (Complex 2 1) (None::unit option) ''dense''
       (None::unit option) (Some Double) = Inr eop"
    using electric_field_sample by blast
  obtain mop where m:
    "magnetic_field [] (0::nat) [[0, 0, 1]] (Complex 2 1) (None::unit option) ''dense''
       (None::unit option) (Some Double) = Inr mop"
    using magnetic_field_sample by blast
  have "options (pa_operator_descriptor (assembler_of eop)) = [2, 1] \<and>
        options (pa_operator_descriptor (assembler_of mop)) = [2, 1]"
    using options_real_imag [of "Complex 2 1" "Some Double" "[]" "0::nat" "[[0, 0, 1]]"
        "None::unit option" "''dense''" "None::unit option" eop mop] e m
    by simp
  with e m show ?thesis by blast
qed

text \<open>
  C3: the kernel-type tag of the descriptor built by \<open>electric_field\<close> equals the one of
  the descriptor built by \<open>magnetic_field\<close>, whatever the arguments of the two calls: both
  are the tag "helmholtz_single_layer". The last conjunct compares the descriptors held by
  the operators of two calls that returned.
\<close>

theorem kernel_type_shared:
  "kernel_type (electric_field_operator_descriptor w p) =
     kernel_type (magnetic_field_operator_descriptor w' p') \<and>
   kernel_type (electric_field_operator_descriptor w p) = ''helmholtz_single_layer'' \<and>
   kernel_type (magnetic_field_operator_descriptor w' p') = ''helmholtz_single_layer'' \<and>
   (electric_field reg s pts w par a d p = Inr eop \<and>
    magnetic_field reg' s' pts' w' par' a' d' p' = Inr mop \<longrightarrow>
      kernel_type (pa_operator_descriptor (assembler_of eop)) =
        kernel_type (pa_operator_descriptor (assembler_of mop)))"
  by (auto dest!: electric_field_descriptor magnetic_field_descriptor
      simp: electric_field_operator_descriptor_def magnetic_field_operator_descriptor_def)

theorem kernel_type_shared_witness:
  "\<exists>eop mop.
     electric_field [] (0::nat) [[0, 0, 1]] (Complex 2 1) (None::unit option) ''dense''
       (None::unit option) (Some Double) = Inr eop \<and>
     magnetic_field [] (0::nat) [[0, 0, 1]] (Complex 2 1) (None::unit option) ''dense''
       (None::unit option) (Some Double) = Inr mop \<and>
     kernel_type (pa_operator_descriptor (assembler_of eop)) =
       kernel_type (pa_operator_descriptor (assembler_of mop))"
proof -
  obtain eop where e:
    "electric_field [] (0::nat) [[0, 0, 1]] (Complex 2 1) (None::unit option) ''dense''
       (None::unit option) (Some Double) = Inr eop"
    using electric_field_sample by blast
  obtain mop where m:
    "magnetic_field [] (0::nat) [[0, 0, 1]] (Complex 2 1) (None::unit option) ''dense''
       (None::unit option) (Some Double) = Inr mop"
    using magnetic_field_sample by blast
  have "kernel_type (pa_operator_descriptor (assembler_of eop)) =
        kernel_type (pa_operator_descriptor (assembler_of mop))"
    using kernel_type_shared [of "Complex 2 1" "Some Double" "Complex 2 1" "Some Double"
        "[]" "0::nat" "[[0, 0, 1]]" "None::unit option" "''dense''" "None::unit option" eop
        "[]" "0::nat" "[[0, 0, 1]]" "None::unit option" "''dense''" "None::unit option" mop]
      e m
    by simp
  with e m show ?thesis by blast
qed

text \<open>
  C4: the assembly-type tag of the descriptor built by \<open>electric_field\<close> is
  "maxwell_electric_field", the one of the descriptor built by \<open>magnetic_field\<close> is
  "maxwell_magnetic_field", and the two differ, whatever the arguments of the two calls.
  The last conjunct compares the descriptors held by the operators of two calls that
  returned.
\<close>

theorem assembly_type_distinct:
  "assembly_type (electric_field_operator_descriptor w p) = ''maxwell_electric_field'' \<and>
   assembly_type (magnetic_field_operator_descriptor w' p') = ''maxwell_magnetic_field'' \<and>
   assembly_type (electric_field_operator_descriptor w p) \<noteq>
     assembly_type (magnetic_field_operator_descriptor w' p') \<and>
   (electric_field reg s pts w par a d p = Inr eop \<and>
    magnetic_field reg' s' pts' w' par' a' d' p' = Inr mop \<longrightarrow>
      assembly_type (pa_operator_descriptor (assembler_of eop)) \<noteq>
        assembly_type (pa_operator_descriptor (assembler_of mop)))"
  by (auto dest!: electric_field_descriptor magnetic_field_descriptor
      simp: electric_field_operator_descriptor_def magnetic_field_operator_descriptor_def)

theorem assembly_type_distinct_witness:
  "\<exists>eop mop.
     electric_field [] (0::nat) [[0, 0, 1]] (Complex 2 1) (None::unit option) ''dense''
       (None::unit option) (Some Double) = Inr eop \<and>
     magnetic_field [] (0::nat) [[0, 0, 1]] (Complex 2 1) (None::unit option) ''dense''
       (None::unit option) (Some Double) = Inr mop \<and>
     assembly_type (pa_operator_descriptor (assembler_of eop)) \<noteq>
       assembly_type (pa_operator_descriptor (assembler_of mop))"
proof -
  obtain eop where e:
    "electric_field [] (0::nat) [[0, 0, 1]] (Complex 2 1) (None::unit option) ''dense''
       (None::unit option) (Some Double) = Inr eop"
    using electric_field_sample by blast
  obtain mop where m:
    "magnetic_field [] (0::nat) [[0, 0, 1]] (Complex 2 1) (None::unit option) ''dense''
       (None::unit option) (Some Double) = Inr mop"
    using magnetic_field_sample by blast
  have "assembly_type (pa_operator_descriptor (assembler_of eop)) \<noteq>
        assembly_type (pa_operator_descriptor (assembler_of mop))"
    using assembly_type_distinct [of "Complex 2 1" "Some Double" "Complex 2 1" "Some Double"
        "[]" "0::nat" "[[0, 0, 1]]" "None::unit option" "''dense''" "None::unit option" eop
        "[]" "0::nat" "[[0, 0, 1]]" "None::unit option" "''dense''" "None::unit option" mop]
      e m
    by simp
  with e m show ?thesis by blast
qed

text \<open>
  C5: the descriptor built by either factory has kernel dimension 3, is marked complex
  valued and has no singular part, whatever the wavenumber and the precision; the space,
  the points and the other optional arguments do not enter its construction. The last two
  conjuncts say the same of the descriptor held by a returned operator.
\<close>

theorem fixed_fields:
  "kernel_dimension (electric_field_operator_descriptor w p) = 3 \<and>
   is_complex (electric_field_operator_descriptor w p) \<and>
   singular_part (electric_field_operator_descriptor w p) = None \<and>
   kernel_dimension (magnetic_field_operator_descriptor w p) = 3 \<and>
   is_complex (magnetic_field_operator_descriptor w p) \<and>
   singular_part (magnetic_field_operator_descriptor w p) = None \<and>
   (electric_field reg s pts w par a d p = Inr eop \<longrightarrow>
      kernel_dimension (pa_operator_descriptor (assembler_of eop)) = 3 \<and>
      is_complex (pa_operator_descriptor (assembler_of eop)) \<and>
      singular_part (pa_operator_descriptor (assembler_of eop)) = None) \<and>
   (magnetic_field reg s pts w par a d p = Inr mop \<longrightarrow>
      kernel_dimension (pa_operator_descriptor (assembler_of mop)) = 3 \<and>
      is_complex (pa_operator_descriptor (assembler_of mop)) \<and>
      singular_part (pa_operator_descriptor (assembler_of mop)) = None)"
  by (simp add: electric_field_descriptor magnetic_field_descriptor
      electric_field_operator_descriptor_def magnetic_field_operator_descriptor_def)

theorem fixed_fields_witness:
  "\<exists>eop mop.
     electric_field [] (0::nat) [[0, 0, 1]] (Complex 2 1) (None::unit option) ''dense''
       (None::unit option) (Some Double) = Inr eop \<and>
     magnetic_field [] (0::nat) [[0, 0, 1]] (Complex 2 1) (None::unit option) ''dense''
       (None::unit option) (Some Double) = Inr mop \<and>
     kernel_dimension (pa_operator_descriptor (assembler_of eop)) = 3 \<and>
     is_complex (pa_operator_descriptor (assembler_of eop)) \<and>
     singular_part (pa_operator_descriptor (assembler_of eop)) = None \<and>
     kernel_dimension (pa_operator_descriptor (assembler_of mop)) = 3 \<and>
     is_complex (pa_operator_descriptor (assembler_of mop)) \<and>
     singular_part (pa_operator_descriptor (assembler_of mop)) = None"
proof -
  obtain eop where e:
    "electric_field [] (0::nat) [[0, 0, 1]] (Complex 2 1) (None::unit option) ''dense''
       (None::unit option) (Some Double) = Inr eop"
    using electric_field_sample by blast
  obtain mop where m:
    "magnetic_field [] (0::nat) [[0, 0, 1]] (Complex 2 1) (None::unit option) ''dense''
       (None::unit option) (Some Double) = Inr mop"
    using magnetic_field_sample by blast
  have "kernel_dimension (pa_operator_descriptor (assembler_of eop)) = 3 \<and>
        is_complex (pa_operator_descriptor (assembler_of eop)) \<and>
        singular_part (pa_operator_descriptor (assembler_of eop)) = None \<and>
        kernel_dimension (pa_operator_descriptor (assembler_of mop)) = 3 \<and>
        is_complex (pa_operator_descriptor (assembler_of mop)) \<and>
        singular_part (pa_operator_descriptor (assembler_of mop)) = None"
    using fixed_fields [of "Complex 2 1" "Some Double" "[]" "0::nat" "[[0, 0, 1]]"
        "None::unit option" "''dense''" "None::unit option" eop mop] e m
    by simp
  with e m show ?thesis by blast
qed

section \<open>Properties of the factory calls\<close>

text \<open>
  C8: the descriptor built by a factory depends on the wavenumber and the precision only.
  Two calls of the same factory with the same wavenumber and precision that both return
  hold equal descriptors, however the registry, the space (even its type), the points, the
  parameters, the assembler name and the device interface differ; and the descriptor is
  the one built from the wavenumber and the precision alone.
\<close>

theorem descriptor_independent_of_other_arguments:
  "(electric_field reg s pts w par a d p = Inr eop \<and>
    electric_field reg' s' pts' w par' a' d' p = Inr eop' \<longrightarrow>
      pa_operator_descriptor (assembler_of eop) = pa_operator_descriptor (assembler_of eop') \<and>
      pa_operator_descriptor (assembler_of eop) = electric_field_operator_descriptor w p) \<and>
   (magnetic_field reg s pts w par a d p = Inr mop \<and>
    magnetic_field reg' s' pts' w par' a' d' p = Inr mop' \<longrightarrow>
      pa_operator_descriptor (assembler_of mop) = pa_operator_descriptor (assembler_of mop') \<and>
      pa_operator_descriptor (assembler_of mop) = magnetic_field_operator_descriptor w p)"
  by (auto dest!: electric_field_descriptor magnetic_field_descriptor)

lemma electric_field_sample_fmm:
  "electric_field [''fmm''] ''sphere'' [[1, 2, 3], [4, 5, 6]] (Complex 2 1) (Some (5::int))
       ''fmm'' (Some True) (Some Double) =
     Inr (PotentialOperator
           \<lparr>pa_space = ''sphere'', pa_points = [[1, 2, 3], [4, 5, 6]],
            pa_operator_descriptor = electric_field_operator_descriptor (Complex 2 1) (Some Double),
            pa_device_interface = Some True, pa_assembler_name = ''fmm'',
            pa_parameters = Some 5\<rparr>)"
  by (simp add: electric_field_def PotentialAssembler_def recognized_assemblers_def
      well_formed_points_def)

lemma magnetic_field_sample_fmm:
  "magnetic_field [''fmm''] ''sphere'' [[1, 2, 3], [4, 5, 6]] (Complex 2 1) (Some (5::int))
       ''fmm'' (Some True) (Some Double) =
     Inr (PotentialOperator
           \<lparr>pa_space = ''sphere'', pa_points = [[1, 2, 3], [4, 5, 6]],
            pa_operator_descriptor = magnetic_field_operator_descriptor (Complex 2 1) (Some Double),
            pa_device_interface = Some True, pa_assembler_name = ''fmm'',
            pa_parameters = Some 5\<rparr>)"
  by (simp add: magnetic_field_def PotentialAssembler_def recognized_assemblers_def
      well_formed_points_def)

theorem descriptor_independent_of_other_arguments_witness:
  "\<exists>eop eop' mop mop'.
     electric_field [] (0::nat) [[0, 0, 1]] (Complex 2 1) (None::unit option) ''dense''
       (None::unit option) (Some Double) = Inr eop \<and>
     electric_field [''fmm''] ''sphere'' [[1, 2, 3], [4, 5, 6]] (Complex 2 1) (Some (5::int))
       ''fmm'' (Some True) (Some Double) = Inr eop' \<and>
     magnetic_field [] (0::nat) [[0, 0, 1]] (Complex 2 1) (None::unit option) ''dense''
       (None::unit option) (Some Double) = Inr mop \<and>
     magnetic_field [''fmm''] ''sphere'' [[1, 2, 3], [4, 5, 6]] (Complex 2 1) (Some (5::int))
       ''fmm'' (Some True) (Some Double) = Inr mop' \<and>
     pa_operator_descriptor (assembler_of eop) = pa_operator_descriptor (assembler_of eop') \<and>
     pa_operator_descriptor (assembler_of mop) = pa_operator_descriptor (assembler_of mop')"
proof -
  obtain eop where e:
    "electric_field [] (0::nat) [[0, 0, 1]] (Complex 2 1) (None::unit option) ''dense''
       (None::unit option) (Some Double) = Inr eop"
    using electric_field_sample by blast
  obtain eop' where e':
    "electric_field [''fmm''] ''sphere'' [[1, 2, 3], [4, 5, 6]] (Complex 2 1) (Some (5::int))
       ''fmm'' (Some True) (Some Double) = Inr eop'"
    using electric_field_sample_fmm by blast
  obtain mop where m:
    "magnetic_field [] (0::nat) [[0, 0, 1]] (Complex 2 1) (None::unit option) ''dense''
       (None::unit option) (Some Double) = Inr mop"
    using magnetic_field_sample by blast
  obtain mop' where m':
    "magnetic_field [''fmm''] ''sphere'' [[1, 2, 3], [4, 5, 6]] (Complex 2 1) (Some (5::int))
       ''fmm'' (Some True) (Some Double) = Inr mop'"
    using magnetic_field_sample_fmm by blast
  have "pa_operator_descriptor (assembler_of eop) = pa_operator_descriptor (assembler_of eop') \<and>
        pa_operator_descriptor (assembler_of mop) = pa_operator_descriptor (assembler_of mop')"
    using descriptor_independent_of_other_arguments [of
        "[]" "0::nat" "[[0, 0, 1]]" "Complex 2 1" "None::unit option" "''dense''"
        "None::unit option" "Some Double" eop
        "[''fmm'']" "''sphere''" "[[1, 2, 3], [4, 5, 6]]" "Some (5::int)" "''fmm''" "Some True"
        eop' mop mop'] e e' m m'
    by simp
  with e e' m m' show ?thesis by blast
qed

text \<open>
  C9: each factory is the call of one \<open>PotentialAssembler\<close> on the space, the points, the
  descriptor, the device interface, the assembler name and the parameters it was given,
  followed by one \<open>PotentialOperator\<close> around the assembler: it raises exactly when the
  assembler's constructor does, with the same error, and has no check of its own. The
  assembler of a returned operator holds the five arguments as they were passed.
\<close>

theorem arguments_forwarded:
  "electric_field reg s pts w par a d p =
     (case PotentialAssembler reg s pts (electric_field_operator_descriptor w p) d a par of
        Inl e \<Rightarrow> Inl e | Inr asm \<Rightarrow> Inr (PotentialOperator asm)) \<and>
   magnetic_field reg s pts w par a d p =
     (case PotentialAssembler reg s pts (magnetic_field_operator_descriptor w p) d a par of
        Inl e \<Rightarrow> Inl e | Inr asm \<Rightarrow> Inr (PotentialOperator asm)) \<and>
   (electric_field reg s pts w par a d p = Inr eop \<longrightarrow>
      pa_space (assembler_of eop) = s \<and> pa_points (assembler_of eop) = pts \<and>
      pa_device_interface (assembler_of eop) = d \<and>
      pa_assembler_name (assembler_of eop) = a \<and> pa_parameters (assembler_of eop) = par) \<and>
   (magnetic_field reg s pts w par a d p = Inr mop \<longrightarrow>
      pa_space (assembler_of mop) = s \<and> pa_points (assembler_of mop) = pts \<and>
      pa_device_interface (assembler_of mop) = d \<and>
      pa_assembler_name (assembler_of mop) = a \<and> pa_parameters (assembler_of mop) = par)"
proof (intro conjI impI)
  show "electric_field reg s pts w par a d p =
     (case PotentialAssembler reg s pts (electric_field_operator_descriptor w p) d a par of
        Inl e \<Rightarrow> Inl e | Inr asm \<Rightarrow> Inr (PotentialOperator asm))"
    by (simp add: electric_field_def)
  show "magnetic_field reg s pts w par a d p =
     (case PotentialAssembler reg s pts (magnetic_field_operator_descriptor w p) d a par of
        Inl e \<Rightarrow> Inl e | Inr asm \<Rightarrow> Inr (PotentialOperator asm))"
    by (simp add: magnetic_field_def)
qed (auto dest!: electric_field_Inr magnetic_field_Inr)

theorem arguments_forwarded_witness:
  "\<exists>eop mop.
     electric_field [''fmm''] ''sphere'' [[1, 2, 3], [4, 5, 6]] (Complex 2 1) (Some (5::int))
       ''fmm'' (Some True) (Some Double) = Inr eop \<and>
     magnetic_field [''fmm''] ''sphere'' [[1, 2, 3], [4, 5, 6]] (Complex 2 1) (Some (5::int))
       ''fmm'' (Some True) (Some Double) = Inr mop \<and>
     pa_space (assembler_of eop) = ''sphere'' \<and>
     pa_points (assembler_of eop) = [[1, 2, 3], [4, 5, 6]] \<and>
     pa_device_interface (assembler_of eop) = Some True \<and>
     pa_assembler_name (assembler_of eop) = ''fmm'' \<and>
     pa_parameters (assembler_of eop) = Some 5 \<and>
     pa_space (assembler_of mop) = ''sphere'' \<and>
     pa_points (assembler_of mop) = [[1, 2, 3], [4, 5, 6]] \<and>
     pa_device_interface (assembler_of mop) = Some True \<and>
     pa_assembler_name (assembler_of mop) = ''fmm'' \<and>
     pa_parameters (assembler_of mop) = Some 5"
proof -
  obtain eop where e:
    "electric_field [''fmm''] ''sphere'' [[1, 2, 3], [4, 5, 6]] (Complex 2 1) (Some (5::int))
       ''fmm'' (Some True) (Some Double) = Inr eop"
    using electric_field_sample_fmm by blast
  obtain mop where m:
    "magnetic_field [''fmm''] ''sphere'' [[1, 2, 3], [4, 5, 6]] (Complex 2 1) (Some (5::int))
       ''fmm'' (Some True) (Some Double) = Inr mop"
    using magnetic_field_sample_fmm by blast
  have "pa_space (assembler_of eop) = ''sphere'' \<and>
     pa_points (assembler_of eop) = [[1, 2, 3], [4, 5, 6]] \<and>
     pa_device_interface (assembler_of eop) = Some True \<and>
     pa_assembler_name (assembler_of eop) = ''fmm'' \<and>
     pa_parameters (assembler_of eop) = Some 5 \<and>
     pa_space (assembler_of mop) = ''sphere'' \<and>
     pa_points (assembler_of mop) = [[1, 2, 3], [4, 5, 6]] \<and>
     pa_device_interface (assembler_of mop) = Some True \<and>
     pa_assembler_name (assembler_of mop) = ''fmm'' \<and>
     pa_parameters (assembler_of mop) = Some 5"
    using arguments_forwarded [of "[''fmm'']" "''sphere''" "[[1, 2, 3], [4, 5, 6]]"
        "Complex 2 1" "Some (5::int)" "''fmm''" "Some True" "Some Double" eop mop] e m
    by simp
  with e m show ?thesis by blast
qed

text \<open>
  C10: a call that gives only the space, the points and the wavenumber is the call with
  \<open>parameters=None\<close>, \<open>assembler="dense"\<close>, \<open>device_interface=None\<close> and
  \<open>precision=None\<close>, and so is the call that gives these four values explicitly. When it
  returns, the assembler is bound to the name "dense", to no device interface and to no
  parameters, and the descriptor has no precision.
\<close>

theorem default_arguments:
  "electric_field_call reg s pts w (no_keyword_arguments :: ('d, 'q) keyword_arguments) =
     electric_field reg s pts w None ''dense'' None None \<and>
   magnetic_field_call reg s pts w (no_keyword_arguments :: ('d, 'q) keyword_arguments) =
     magnetic_field reg s pts w None ''dense'' None None \<and>
   electric_field_call reg s pts w (no_keyword_arguments :: ('d, 'q) keyword_arguments) =
     electric_field_call reg s pts w
       \<lparr>kw_parameters = Some None, kw_assembler = Some ''dense'',
        kw_device_interface = Some None, kw_precision = Some None\<rparr> \<and>
   magnetic_field_call reg s pts w (no_keyword_arguments :: ('d, 'q) keyword_arguments) =
     magnetic_field_call reg s pts w
       \<lparr>kw_parameters = Some None, kw_assembler = Some ''dense'',
        kw_device_interface = Some None, kw_precision = Some None\<rparr> \<and>
   (electric_field_call reg s pts w (no_keyword_arguments :: ('d, 'q) keyword_arguments) =
      Inr eop \<longrightarrow>
      pa_parameters (assembler_of eop) = None \<and>
      pa_assembler_name (assembler_of eop) = ''dense'' \<and>
      pa_device_interface (assembler_of eop) = None \<and>
      descriptor_precision (pa_operator_descriptor (assembler_of eop)) = None) \<and>
   (magnetic_field_call reg s pts w (no_keyword_arguments :: ('d, 'q) keyword_arguments) =
      Inr mop \<longrightarrow>
      pa_parameters (assembler_of mop) = None \<and>
      pa_assembler_name (assembler_of mop) = ''dense'' \<and>
      pa_device_interface (assembler_of mop) = None \<and>
      descriptor_precision (pa_operator_descriptor (assembler_of mop)) = None)"
  by (auto simp: electric_field_call_def magnetic_field_call_def no_keyword_arguments_def
      electric_field_operator_descriptor_def magnetic_field_operator_descriptor_def
      dest!: electric_field_Inr magnetic_field_Inr)

lemma electric_field_call_sample:
  "electric_field_call [] (0::nat) [[0, 0, 1]] (Complex 2 1)
       (no_keyword_arguments :: (unit, unit) keyword_arguments) =
     Inr (PotentialOperator
           \<lparr>pa_space = 0, pa_points = [[0, 0, 1]],
            pa_operator_descriptor = electric_field_operator_descriptor (Complex 2 1) None,
            pa_device_interface = None, pa_assembler_name = ''dense'', pa_parameters = None\<rparr>)"
  by (simp add: electric_field_call_def no_keyword_arguments_def electric_field_def
      PotentialAssembler_def recognized_assemblers_def well_formed_points_def)

lemma magnetic_field_call_sample:
  "magnetic_field_call [] (0::nat) [[0, 0, 1]] (Complex 2 1)
       (no_keyword_arguments :: (unit, unit) keyword_arguments) =
     Inr (PotentialOperator
           \<lparr>pa_space = 0, pa_points = [[0, 0, 1]],
            pa_operator_descriptor = magnetic_field_operator_descriptor (Complex 2 1) None,
            pa_device_interface = None, pa_assembler_name = ''dense'', pa_parameters = None\<rparr>)"
  by (simp add: magnetic_field_call_def no_keyword_arguments_def magnetic_field_def
      PotentialAssembler_def recognized_assemblers_def well_formed_points_def)

theorem default_arguments_witness:
  "\<exists>eop mop.
     electric_field_call [] (0::nat) [[0, 0, 1]] (Complex 2 1)
       (no_keyword_arguments :: (unit, unit) keyword_arguments) = Inr eop \<and>
     magnetic_field_call [] (0::nat) [[0, 0, 1]] (Complex 2 1)
       (no_keyword_arguments :: (unit, unit) keyword_arguments) = Inr mop \<and>
     pa_parameters (assembler_of eop) = None \<and>
     pa_assembler_name (assembler_of eop) = ''dense'' \<and>
     pa_device_interface (assembler_of eop) = None \<and>
     descriptor_precision (pa_operator_descriptor (assembler_of eop)) = None \<and>
     pa_parameters (assembler_of mop) = None \<and>
     pa_assembler_name (assembler_of mop) = ''dense'' \<and>
     pa_device_interface (assembler_of mop) = None \<and>
     descriptor_precision (pa_operator_descriptor (assembler_of mop)) = None"
proof -
  obtain eop where e:
    "electric_field_call [] (0::nat) [[0, 0, 1]] (Complex 2 1)
       (no_keyword_arguments :: (unit, unit) keyword_arguments) = Inr eop"
    using electric_field_call_sample by blast
  obtain mop where m:
    "magnetic_field_call [] (0::nat) [[0, 0, 1]] (Complex 2 1)
       (no_keyword_arguments :: (unit, unit) keyword_arguments) = Inr mop"
    using magnetic_field_call_sample by blast
  have "pa_parameters (assembler_of eop) = None \<and>
     pa_assembler_name (assembler_of eop) = ''dense'' \<and>
     pa_device_interface (assembler_of eop) = None \<and>
     descriptor_precision (pa_operator_descriptor (assembler_of eop)) = None \<and>
     pa_parameters (assembler_of mop) = None \<and>
     pa_assembler_name (assembler_of mop) = ''dense'' \<and>
     pa_device_interface (assembler_of mop) = None \<and>
     descriptor_precision (pa_operator_descriptor (assembler_of mop)) = None"
    using default_arguments [of "[]" "0::nat" "[[0, 0, 1]]" "Complex 2 1" eop mop] e m
    by simp
  with e m show ?thesis by blast
qed

section \<open>Error conditions\<close>

text \<open>
  C2: each factory fails with the invalid-configuration error, and returns no operator,
  when the assembler name is not a recognized backend name, when the array of evaluation
  points is empty, or when some point is not a 3-vector; for a recognized assembler name
  and a non-empty array of 3-vectors it returns an operator. The check is the one of the
  assembler's constructor, which raises before \<open>PotentialOperator\<close> is reached.
\<close>

theorem invalid_configuration:
  "(a \<notin> set (recognized_assemblers reg) \<or> pts = [] \<or> \<not> list_all (\<lambda>x. length x = 3) pts \<longrightarrow>
      electric_field reg s pts w par a d p = Inl InvalidConfiguration \<and>
      magnetic_field reg s pts w par a d p = Inl InvalidConfiguration) \<and>
   (a \<in> set (recognized_assemblers reg) \<and> pts \<noteq> [] \<and> list_all (\<lambda>x. length x = 3) pts \<longrightarrow>
      (\<exists>eop. electric_field reg s pts w par a d p = Inr eop) \<and>
      (\<exists>mop. magnetic_field reg s pts w par a d p = Inr mop))"
proof (intro conjI impI)
  assume bad: "a \<notin> set (recognized_assemblers reg) \<or> pts = [] \<or>
    \<not> list_all (\<lambda>x. length x = 3) pts"
  then have "a \<notin> set (recognized_assemblers reg) \<or> \<not> well_formed_points pts"
    by (auto simp: well_formed_points_def)
  then have raised: "PotentialAssembler reg s pts od d a par = Inl InvalidConfiguration" for od
    by (rule PotentialAssembler_invalid)
  show "electric_field reg s pts w par a d p = Inl InvalidConfiguration"
    by (simp add: electric_field_def raised)
  show "magnetic_field reg s pts w par a d p = Inl InvalidConfiguration"
    by (simp add: magnetic_field_def raised)
next
  assume good: "a \<in> set (recognized_assemblers reg) \<and> pts \<noteq> [] \<and>
    list_all (\<lambda>x. length x = 3) pts"
  then have "a \<in> set (recognized_assemblers reg)" and "well_formed_points pts"
    by (simp_all add: well_formed_points_def)
  then have built: "\<exists>asm. PotentialAssembler reg s pts od d a par = Inr asm" for od
    by (simp add: PotentialAssembler_valid)
  show "\<exists>eop. electric_field reg s pts w par a d p = Inr eop"
    using built [of "electric_field_operator_descriptor w p"]
    by (auto simp: electric_field_def)
  show "\<exists>mop. magnetic_field reg s pts w par a d p = Inr mop"
    using built [of "magnetic_field_operator_descriptor w p"]
    by (auto simp: magnetic_field_def)
qed

theorem invalid_configuration_witness:
  "electric_field [''fmm''] (0::nat) [[0, 0, 1]] (Complex 2 1) (None::unit option) ''sparse''
       (None::unit option) None = Inl InvalidConfiguration \<and>
   magnetic_field [''fmm''] (0::nat) [[0, 0, 1]] (Complex 2 1) (None::unit option) ''sparse''
       (None::unit option) None = Inl InvalidConfiguration \<and>
   electric_field [''fmm''] (0::nat) [] (Complex 2 1) (None::unit option) ''dense''
       (None::unit option) None = Inl InvalidConfiguration \<and>
   magnetic_field [''fmm''] (0::nat) [[0, 0, 1], [0, 1]] (Complex 2 1) (None::unit option)
       ''dense'' (None::unit option) None = Inl InvalidConfiguration \<and>
   (\<exists>eop. electric_field [''fmm''] (0::nat) [[0, 0, 1]] (Complex 2 1) (None::unit option)
       ''fmm'' (None::unit option) None = Inr eop) \<and>
   (\<exists>mop. magnetic_field [''fmm''] (0::nat) [[0, 0, 1]] (Complex 2 1) (None::unit option)
       ''dense'' (None::unit option) None = Inr mop)"
  using
    invalid_configuration [of "''sparse''" "[''fmm'']" "[[0, 0, 1]]" "0::nat" "Complex 2 1"
      "None::unit option" "None::unit option" None]
    invalid_configuration [of "''dense''" "[''fmm'']" "[]" "0::nat" "Complex 2 1"
      "None::unit option" "None::unit option" None]
    invalid_configuration [of "''dense''" "[''fmm'']" "[[0, 0, 1], [0, 1]]" "0::nat"
      "Complex 2 1" "None::unit option" "None::unit option" None]
    invalid_configuration [of "''fmm''" "[''fmm'']" "[[0, 0, 1]]" "0::nat" "Complex 2 1"
      "None::unit option" "None::unit option" None]
    invalid_configuration [of "''dense''" "[''fmm'']" "[[0, 0, 1]]" "0::nat" "Complex 2 1"
      "None::unit option" "None::unit option" None]
  by (simp add: recognized_assemblers_def)

section \<open>Immutability of a descriptor in the store\<close>

lemma core_step_length: "length h \<le> length (core_step h op)"
  by (cases op) (auto split: heap_object.splits assembly_state.splits)

lemma core_step_descriptor:
  assumes "r < length h" and "h ! r = DescriptorObject d"
  shows "core_step h op ! r = DescriptorObject d"
proof (cases op)
  case (ConstructDescriptor d')
  with assms show ?thesis by (simp add: nth_append)
next
  case (ConstructAssembler r')
  with assms show ?thesis by (simp add: nth_append split: heap_object.splits)
next
  case (Apply a ok)
  show ?thesis
  proof (cases "a = r")
    case True
    with assms Apply show ?thesis by simp
  next
    case False
    with assms Apply show ?thesis
      by (simp split: heap_object.splits assembly_state.splits)
  qed
qed

lemma core_run_descriptor:
  "r < length h \<Longrightarrow> h ! r = DescriptorObject d \<Longrightarrow>
     r < length (core_run h ops) \<and> core_run h ops ! r = DescriptorObject d"
proof (induction ops arbitrary: h)
  case Nil
  then show ?case by (simp add: core_run_def)
next
  case (Cons op ops)
  have "r < length (core_step h op)"
    using Cons.prems(1) core_step_length [of h op] by simp
  moreover have "core_step h op ! r = DescriptorObject d"
    using Cons.prems by (rule core_step_descriptor)
  ultimately have "r < length (core_run (core_step h op) ops) \<and>
      core_run (core_step h op) ops ! r = DescriptorObject d"
    by (rule Cons.IH)
  then show ?case by (simp add: core_run_def)
qed

text \<open>
  C7: a descriptor constructed by a factory is immutable. Put at a fresh address of any
  store, the descriptor of \<open>electric_field\<close> or of \<open>magnetic_field\<close> is still at that
  address, with every field as constructed, after any sequence of the core's operations:
  construction of further descriptors, construction of assemblers (also several over this
  descriptor) and applications with either outcome of the assembly.
\<close>

theorem descriptor_immutable:
  "core_run (h @ [DescriptorObject (electric_field_operator_descriptor w p)]) ops ! length h =
     DescriptorObject (electric_field_operator_descriptor w p) \<and>
   core_run (h @ [DescriptorObject (magnetic_field_operator_descriptor w p)]) ops ! length h =
     DescriptorObject (magnetic_field_operator_descriptor w p)"
  using
    core_run_descriptor [of "length h"
      "h @ [DescriptorObject (electric_field_operator_descriptor w p)]"
      "electric_field_operator_descriptor w p" ops]
    core_run_descriptor [of "length h"
      "h @ [DescriptorObject (magnetic_field_operator_descriptor w p)]"
      "magnetic_field_operator_descriptor w p" ops]
  by simp

section \<open>Effects of a factory call\<close>





















end
